theory Spec2Isabelle
  imports Complex_Main
begin

section \<open>Completion client (composables/use-groq)\<close>

text \<open>
  A message of a completion request: a role tag and a text. The chat transcript of the
  editor component holds entries of the same shape (there only with the roles user and
  assistant).
\<close>

datatype Role = System | User | Assistant

record Message =
  role :: Role
  content :: string

text \<open>
  The parameter object handed to \<^verbatim>\<open>groq.chat.completions.create\<close>. The temperature
  literal \<^verbatim>\<open>0.7\<close> is kept as the exact fraction it denotes.
\<close>

record CompletionRequest =
  messages :: "Message list"
  model :: string
  stream :: bool
  temperature :: rat
  max_tokens :: nat

text \<open>
  \<^verbatim>\<open>getGroqChatCompletion(messages)\<close> performs one call of the endpoint. The call is the
  effect of the function, so the model threads the trace of the requests issued so far and
  appends the new one. What the endpoint answers is not decided by the client: the answer
  is an input of the handlers below.
\<close>

definition getGroqChatCompletion :: "Message list \<Rightarrow> CompletionRequest list \<Rightarrow> CompletionRequest list" where
  "getGroqChatCompletion msgs issued =
     issued @ [\<lparr>messages = msgs, model = ''llama3-8b-8192'', stream = True,
                temperature = 7 / 10, max_tokens = 1024\<rparr>]"

text \<open>
  One chunk of the streamed answer, as far as the handlers look into it:
  \<^verbatim>\<open>chunk.choices[0]?.delta?.content || ''\<close>. The list of choices may be empty, a choice
  may lack its delta and a delta may lack its content.
\<close>

datatype Delta = Delta (delta_content: "string option")

datatype Choice = Choice (delta: "Delta option")

datatype Chunk = Chunk (choices: "Choice list")

definition chunkContent :: "Chunk \<Rightarrow> string" where
  "chunkContent chunk =
     (case choices chunk of
        [] \<Rightarrow> []
      | c # _ \<Rightarrow>
          (case delta c of
             None \<Rightarrow> []
           | Some d \<Rightarrow> (case delta_content d of None \<Rightarrow> [] | Some t \<Rightarrow> t)))"

text \<open>
  A value that reaches a \<^verbatim>\<open>catch\<close> clause: an \<^verbatim>\<open>Error\<close> object with its message, or
  anything else. The streamed answer is a finite sequence of chunks that either ends or
  fails at its next step; a request that is rejected before the first chunk is the empty
  sequence that fails.
\<close>

datatype Thrown = Error string | NonError

datatype StreamEnd = Exhausted | Fails Thrown

record ChatStream =
  chunks :: "Chunk list"
  ending :: StreamEnd

section \<open>The document widget\<close>

text \<open>
  The editor widget is a collaborator of the component, used through four operations:
  the current selection, the text between two offsets, the replacement of the content
  between two offsets by a text, and the export of the whole document. The model is the
  flat text of the document with offsets counted from 0. The widget's own selection is
  read by the handlers only before their first replacement; the model leaves it as it is.
\<close>

record SelectionRange =
  from_pos :: nat
  to_pos :: nat

record Editor =
  doc :: string
  selection :: SelectionRange

definition textBetween :: "nat \<Rightarrow> nat \<Rightarrow> string \<Rightarrow> string" where
  "textBetween f t d = take (t - f) (drop f d)"

text \<open>
  \<^verbatim>\<open>tr.replaceWith(from, to, schema.text(newText))\<close> followed by \<^verbatim>\<open>view.dispatch(tr)\<close>.
  The widget throws for an empty text node and for offsets outside the document;
  \<open>None\<close> is that exception.
\<close>

definition replaceWith :: "nat \<Rightarrow> nat \<Rightarrow> string \<Rightarrow> string \<Rightarrow> string option" where
  "replaceWith f t newText d =
     (if newText \<noteq> [] \<and> f \<le> t \<and> t \<le> length d then Some (take f d @ newText @ drop t d)
      else None)"

text \<open>
  \<^verbatim>\<open>editor.getHTML()\<close>, the export of the whole document. The flat text stands for one
  paragraph of plain text: its export is the paragraph element around the text, with the
  markup characters written the way the serializer of the browser writes them.
\<close>

definition escapeHTML :: "char \<Rightarrow> string" where
  "escapeHTML c =
     (if c = CHR ''&'' then ''&amp;''
      else if c = CHR ''<'' then ''&lt;''
      else if c = CHR ''>'' then ''&gt;''
      else if c = CHR 0xA0 then ''&nbsp;''
      else [c])"

definition getHTML :: "Editor \<Rightarrow> string" where
  "getHTML e = ''<p>'' @ concat (map escapeHTML (doc e)) @ ''</p>''"

section \<open>The editor component\<close>

record StreamingState =
  isStreaming :: bool
  error :: "string option"
  insertedLength :: nat

text \<open>
  \<^verbatim>\<open>EditorState\<close> has a second field, a handle on the widget that is written once and
  never read; the handlers use the component's own \<^verbatim>\<open>editor\<close> reference.
\<close>

record EditorState =
  selectionRange :: "SelectionRange option"

text \<open>
  The reactive state of the component, with the two traces of its effects on its
  collaborators: the completion requests issued and the replacements asked of the widget
  (offsets and text of each \<^verbatim>\<open>replaceWith\<close> call, whether it succeeded or threw).
\<close>

record App =
  editor :: "Editor option"
  state :: StreamingState
  editorState :: EditorState
  chatMessages :: "Message list"
  newMessage :: string
  isChatLoading :: bool
  requests :: "CompletionRequest list"
  replaceCalls :: "(nat \<times> nat \<times> string) list"

text \<open>The text of a traced replacement.\<close>

definition callText :: "nat \<times> nat \<times> string \<Rightarrow> string" where
  "callText call = snd (snd call)"

definition hasSelection :: "App \<Rightarrow> bool" where
  "hasSelection s =
     (case editor s of
        None \<Rightarrow> False
      | Some e \<Rightarrow> from_pos (selection e) \<noteq> to_pos (selection e))"

definition getSelectedText :: "App \<Rightarrow> string" where
  "getSelectedText s =
     (case editor s of
        None \<Rightarrow> []
      | Some e \<Rightarrow>
          (case selectionRange (editorState s) of
             None \<Rightarrow> []
           | Some r \<Rightarrow> textBetween (from_pos r) (to_pos r) (doc e)))"

definition replaceSelection :: "string \<Rightarrow> App \<Rightarrow> App" where
  "replaceSelection newText s =
     (case editor s of
        None \<Rightarrow> s
      | Some e \<Rightarrow>
          (case selectionRange (editorState s) of
             None \<Rightarrow> s
           | Some r \<Rightarrow>
               let currentFrom = from_pos r;
                   currentTo = from_pos r + insertedLength (state s);
                   s1 = s\<lparr>replaceCalls := replaceCalls s @ [(currentFrom, currentTo, newText)]\<rparr>
               in (case replaceWith currentFrom currentTo newText (doc e) of
                     Some d \<Rightarrow>
                       s1\<lparr>editor := Some (e\<lparr>doc := d\<rparr>),
                          state := (state s1)\<lparr>insertedLength := length newText\<rparr>\<rparr>
                   | None \<Rightarrow>
                       s1\<lparr>state := (state s1)\<lparr>error := Some ''Error replacing selection''\<rparr>\<rparr>)))"

definition createMessages :: "string \<Rightarrow> Message list" where
  "createMessages selectedText =
     [\<lparr>role = System,
       content = ''You are a helpful writing assistant. Summarize the given text while maintaining its core meaning. Keep your response focused and concise.''\<rparr>,
      \<lparr>role = User,
       content = ''Summarize this text: '' @ [CHR 0x22] @ selectedText @ [CHR 0x22]\<rparr>]"

subsection \<open>The phases of an AI action\<close>

text \<open>The three assignments that open the \<^verbatim>\<open>try\<close> block of every action handler.\<close>

definition beginStreaming :: "App \<Rightarrow> App" where
  "beginStreaming s =
     s\<lparr>state := (state s)\<lparr>isStreaming := True, error := None, insertedLength := 0\<rparr>\<rparr>"

definition captureSelection :: "Editor \<Rightarrow> App \<Rightarrow> App" where
  "captureSelection e s =
     s\<lparr>editorState := (editorState s)
          \<lparr>selectionRange := Some \<lparr>from_pos = from_pos (selection e),
                                    to_pos = to_pos (selection e)\<rparr>\<rparr>\<rparr>"

definition requestCompletion :: "Message list \<Rightarrow> App \<Rightarrow> App" where
  "requestCompletion msgs s = s\<lparr>requests := getGroqChatCompletion msgs (requests s)\<rparr>"

text \<open>The body of the \<^verbatim>\<open>for await\<close> loop, and the loop over the chunks that arrive.\<close>

definition onChunk :: "Chunk \<Rightarrow> string \<times> App \<Rightarrow> string \<times> App" where
  "onChunk chunk acc =
     (let content = chunkContent chunk
      in if content \<noteq> []
         then (fst acc @ content, replaceSelection (fst acc @ content) (snd acc))
         else acc)"

fun forAwait :: "Chunk list \<Rightarrow> string \<times> App \<Rightarrow> string \<times> App" where
  "forAwait [] acc = acc"
| "forAwait (chunk # rest) acc = forAwait rest (onChunk chunk acc)"

definition errorMessage :: "Thrown \<Rightarrow> string" where
  "errorMessage t = (case t of Error m \<Rightarrow> m | NonError \<Rightarrow> ''An unknown error occurred'')"

definition catchStreaming :: "Thrown \<Rightarrow> App \<Rightarrow> App" where
  "catchStreaming t s = s\<lparr>state := (state s)\<lparr>error := Some (errorMessage t)\<rparr>\<rparr>"

definition finallyReset :: "App \<Rightarrow> App" where
  "finallyReset s =
     s\<lparr>state := (state s)\<lparr>isStreaming := False, insertedLength := 0\<rparr>,
       editorState := (editorState s)\<lparr>selectionRange := None\<rparr>\<rparr>"

text \<open>
  How the \<^verbatim>\<open>try\<close> block is left once the loop has consumed the chunks: normally when
  the sequence is exhausted, through the \<^verbatim>\<open>catch\<close> clause when it fails.
\<close>

definition endStream :: "StreamEnd \<Rightarrow> App \<Rightarrow> App" where
  "endStream en s = (case en of Exhausted \<Rightarrow> s | Fails t \<Rightarrow> catchStreaming t s)"

subsection \<open>The action handlers\<close>

text \<open>
  \<^verbatim>\<open>summarize\<close>, the handler of the toolbar button. The answer of the endpoint is the
  argument \<open>chatStream\<close>.
\<close>

definition summarize :: "ChatStream \<Rightarrow> App \<Rightarrow> App" where
  "summarize chatStream s =
     (if \<not> hasSelection s \<or> isStreaming (state s) then s
      else
        let s1 = beginStreaming s
        in finallyReset
             (case editor s1 of
                None \<Rightarrow> catchStreaming (Error ''Editor is not initialized.'') s1
              | Some e \<Rightarrow>
                  let s2 = captureSelection e s1;
                      selectedText = getSelectedText s2
                  in if selectedText = [] then catchStreaming (Error ''No text selected.'') s2
                     else
                       let s3 = requestCompletion (createMessages selectedText) s2
                       in endStream (ending chatStream)
                            (snd (forAwait (chunks chatStream) ([], s3)))))"

text \<open>
  The three entries of \<^verbatim>\<open>quickActions\<close>, each with its own copy of the body. The
  message list that a handler builds inline is named here after its handler.
\<close>

definition summarizeMessages :: "string \<Rightarrow> Message list" where
  "summarizeMessages selectedText =
     [\<lparr>role = System,
       content = ''You are a helpful writing assistant. Summarize the given text while maintaining its core meaning. Keep your response focused and concise.''\<rparr>,
      \<lparr>role = User,
       content = ''Summarize this text: '' @ [CHR 0x22] @ selectedText @ [CHR 0x22]\<rparr>]"

definition improveMessages :: "string \<Rightarrow> Message list" where
  "improveMessages selectedText =
     [\<lparr>role = System,
       content = ''You are a helpful writing assistant. Improve the given text while maintaining its core meaning. Make it more clear, concise, and engaging.''\<rparr>,
      \<lparr>role = User,
       content = ''Improve this text: '' @ [CHR 0x22] @ selectedText @ [CHR 0x22]\<rparr>]"

definition completeMessages :: "string \<Rightarrow> Message list" where
  "completeMessages selectedText =
     [\<lparr>role = System,
       content = ''You are a helpful writing assistant. Complete the given text in a natural and coherent way that follows from the existing content.''\<rparr>,
      \<lparr>role = User,
       content = ''Complete this text naturally: '' @ [CHR 0x22] @ selectedText @ [CHR 0x22]\<rparr>]"

definition quickSummarize :: "ChatStream \<Rightarrow> App \<Rightarrow> App" where
  "quickSummarize chatStream s =
     (if \<not> hasSelection s \<or> isStreaming (state s) then s
      else
        let s1 = beginStreaming s
        in finallyReset
             (case editor s1 of
                None \<Rightarrow> catchStreaming (Error ''Editor is not initialized.'') s1
              | Some e \<Rightarrow>
                  let s2 = captureSelection e s1;
                      selectedText = getSelectedText s2
                  in if selectedText = [] then catchStreaming (Error ''No text selected.'') s2
                     else
                       let msgs = summarizeMessages selectedText;
                           s3 = requestCompletion msgs s2
                       in endStream (ending chatStream)
                            (snd (forAwait (chunks chatStream) ([], s3)))))"

definition quickImprove :: "ChatStream \<Rightarrow> App \<Rightarrow> App" where
  "quickImprove chatStream s =
     (if \<not> hasSelection s \<or> isStreaming (state s) then s
      else
        let s1 = beginStreaming s
        in finallyReset
             (case editor s1 of
                None \<Rightarrow> catchStreaming (Error ''Editor is not initialized.'') s1
              | Some e \<Rightarrow>
                  let s2 = captureSelection e s1;
                      selectedText = getSelectedText s2
                  in if selectedText = [] then catchStreaming (Error ''No text selected.'') s2
                     else
                       let msgs = improveMessages selectedText;
                           s3 = requestCompletion msgs s2
                       in endStream (ending chatStream)
                            (snd (forAwait (chunks chatStream) ([], s3)))))"

definition quickComplete :: "ChatStream \<Rightarrow> App \<Rightarrow> App" where
  "quickComplete chatStream s =
     (if \<not> hasSelection s \<or> isStreaming (state s) then s
      else
        let s1 = beginStreaming s
        in finallyReset
             (case editor s1 of
                None \<Rightarrow> catchStreaming (Error ''Editor is not initialized.'') s1
              | Some e \<Rightarrow>
                  let s2 = captureSelection e s1;
                      selectedText = getSelectedText s2
                  in if selectedText = [] then catchStreaming (Error ''No text selected.'') s2
                     else
                       let msgs = completeMessages selectedText;
                           s3 = requestCompletion msgs s2
                       in endStream (ending chatStream)
                            (snd (forAwait (chunks chatStream) ([], s3)))))"

text \<open>
  The ways an AI action is triggered: the toolbar button bound to \<^verbatim>\<open>summarize\<close> and the
  three buttons rendered from \<^verbatim>\<open>quickActions\<close>.
\<close>

datatype Action = SummarizeButton | QuickSummarize | QuickImprove | QuickComplete

fun triggerAction :: "Action \<Rightarrow> ChatStream \<Rightarrow> App \<Rightarrow> App" where
  "triggerAction SummarizeButton = summarize"
| "triggerAction QuickSummarize = quickSummarize"
| "triggerAction QuickImprove = quickImprove"
| "triggerAction QuickComplete = quickComplete"

text \<open>The message list that each handler sends for a selected text.\<close>

fun actionMessages :: "Action \<Rightarrow> string \<Rightarrow> Message list" where
  "actionMessages SummarizeButton = createMessages"
| "actionMessages QuickSummarize = summarizeMessages"
| "actionMessages QuickImprove = improveMessages"
| "actionMessages QuickComplete = completeMessages"

text \<open>
  The specification asks for the three variants to be one operation with the message
  builder as its parameter. This is that operation, written after the specification's
  state machine: guard, capture, request, streaming, and the return to idle. The handlers
  above are compared with it.
\<close>

definition streamingOperation :: "(string \<Rightarrow> Message list) \<Rightarrow> ChatStream \<Rightarrow> App \<Rightarrow> App" where
  "streamingOperation build chatStream s =
     (case editor s of
        None \<Rightarrow> s
      | Some e \<Rightarrow>
          if from_pos (selection e) = to_pos (selection e) \<or> isStreaming (state s) then s
          else
            let captured = captureSelection e (beginStreaming s);
                selectedText = textBetween (from_pos (selection e)) (to_pos (selection e)) (doc e)
            in if selectedText = []
               then finallyReset (catchStreaming (Error ''No text selected.'') captured)
               else finallyReset
                      (endStream (ending chatStream)
                         (snd (forAwait (chunks chatStream)
                                 ([], requestCompletion (build selectedText) captured)))))"

text \<open>
  The replacements that the loop asks of the widget when it starts with the accumulated text
  \<open>acc\<close> already standing at offset \<open>f\<close> and no replacement fails: one call for each chunk
  with a non-empty content, over the window that the previous call has left.
\<close>

fun windowCalls :: "nat \<Rightarrow> string \<Rightarrow> Chunk list \<Rightarrow> (nat \<times> nat \<times> string) list" where
  "windowCalls f acc [] = []"
| "windowCalls f acc (chunk # rest) =
     (if chunkContent chunk = [] then windowCalls f acc rest
      else (f, f + length acc, acc @ chunkContent chunk)
             # windowCalls f (acc @ chunkContent chunk) rest)"

subsection \<open>Chat send\<close>

text \<open>
  \<^verbatim>\<open>text.trim()\<close> removes white space and line terminators at both ends. Of the
  characters ECMAScript strips, these are the ones a \<^typ>\<open>char\<close> can hold.
\<close>

definition isWhiteSpace :: "char \<Rightarrow> bool" where
  "isWhiteSpace c =
     (c \<in> set [CHR 0x09, CHR 0x0A, CHR 0x0B, CHR 0x0C, CHR 0x0D, CHR 0x20, CHR 0xA0])"

definition trim :: "string \<Rightarrow> string" where
  "trim t = rev (dropWhile isWhiteSpace (rev (dropWhile isWhiteSpace t)))"

text \<open>
  The template literal of the system message: a line for the selected text when there is
  one, and always a line with the exported document.
\<close>

definition chatSystemContent :: "string \<Rightarrow> string \<Rightarrow> string" where
  "chatSystemContent currentSelection editorContent =
     ''You are a helpful writing assistant. You have access to the following context:''
     @ [CHR 0x0A] @ ''          ''
     @ (if currentSelection \<noteq> []
        then ''- Selected text: '' @ [CHR 0x22] @ currentSelection @ [CHR 0x22]
        else [])
     @ [CHR 0x0A] @ ''          - Full document: '' @ [CHR 0x22] @ editorContent @ [CHR 0x22]
     @ [CHR 0x0A] @ ''          ''
     @ [CHR 0x0A] @ ''          Help the user with their writing by providing specific, contextual answers.''
     @ [CHR 0x0A] @ ''          When referring to text, you can quote relevant parts to make your answers clearer.''"

text \<open>The loop of \<^verbatim>\<open>sendMessage\<close>: it accumulates the answer and touches nothing else.\<close>

definition onChatChunk :: "Chunk \<Rightarrow> string \<times> App \<Rightarrow> string \<times> App" where
  "onChatChunk chunk acc =
     (let content = chunkContent chunk
      in if content \<noteq> [] then (fst acc @ content, snd acc) else acc)"

fun forAwaitChat :: "Chunk list \<Rightarrow> string \<times> App \<Rightarrow> string \<times> App" where
  "forAwaitChat [] acc = acc"
| "forAwaitChat (chunk # rest) acc = forAwaitChat rest (onChatChunk chunk acc)"

text \<open>
  The state in which \<^verbatim>\<open>sendMessage\<close> starts to consume the answer: loading flag set,
  user message pushed, request issued.
\<close>

definition chatStart :: "string \<Rightarrow> string \<Rightarrow> App \<Rightarrow> App" where
  "chatStart text selectedText s =
     (let s1 = s\<lparr>isChatLoading := True\<rparr>;
          s2 = s1\<lparr>chatMessages := chatMessages s1 @ [\<lparr>role = User, content = text\<rparr>]\<rparr>;
          editorContent = (case editor s2 of None \<Rightarrow> [] | Some e \<Rightarrow> getHTML e);
          currentSelection = (if selectedText \<noteq> [] then selectedText else getSelectedText s2);
          msgs = [\<lparr>role = System, content = chatSystemContent currentSelection editorContent\<rparr>,
                  \<lparr>role = User, content = text\<rparr>]
      in requestCompletion msgs s2)"

text \<open>
  \<^verbatim>\<open>sendMessage(text, selectedText = '')\<close>. Its \<^verbatim>\<open>catch\<close> clause only writes to the
  console; the \<^verbatim>\<open>finally\<close> clause clears the loading flag and the input box.
\<close>

definition sendMessage :: "string \<Rightarrow> string \<Rightarrow> ChatStream \<Rightarrow> App \<Rightarrow> App" where
  "sendMessage text selectedText chatStream s =
     (if trim text = [] then s
      else
        let s3 = chatStart text selectedText s;
            (response, s4) = forAwaitChat (chunks chatStream) ([], s3);
            s5 = (case ending chatStream of
                    Exhausted \<Rightarrow>
                      s4\<lparr>chatMessages := chatMessages s4 @ [\<lparr>role = Assistant, content = response\<rparr>]\<rparr>
                  | Fails t \<Rightarrow> s4)
        in s5\<lparr>isChatLoading := False, newMessage := []\<rparr>)"

definition handleQuickAction :: "string \<Rightarrow> ChatStream \<Rightarrow> App \<Rightarrow> App" where
  "handleQuickAction prompt chatStream s =
     (if \<not> hasSelection s then s
      else sendMessage prompt (getSelectedText s) chatStream s)"

section \<open>Example states\<close>

text \<open>
  A chunk that carries one text delta, a document with its first sentence selected, the
  component at rest on that document, and the same component while an action streams.
\<close>

definition textChunk :: "string \<Rightarrow> Chunk" where
  "textChunk t = Chunk [Choice (Some (Delta (Some t)))]"

definition foxEditor :: Editor where
  "foxEditor = \<lparr>doc = ''The quick brown fox. The end.'',
                selection = \<lparr>from_pos = 0, to_pos = 20\<rparr>\<rparr>"

definition foxApp :: App where
  "foxApp = \<lparr>editor = Some foxEditor,
             state = \<lparr>isStreaming = False, error = None, insertedLength = 0\<rparr>,
             editorState = \<lparr>selectionRange = None\<rparr>,
             chatMessages = [], newMessage = [], isChatLoading = False,
             requests = [], replaceCalls = []\<rparr>"

definition busyApp :: App where
  "busyApp = foxApp\<lparr>state := \<lparr>isStreaming = True, error = None, insertedLength = 1\<rparr>,
                    editorState := \<lparr>selectionRange = Some \<lparr>from_pos = 0, to_pos = 20\<rparr>\<rparr>\<rparr>"

definition foxStream :: ChatStream where
  "foxStream = \<lparr>chunks = [textChunk ''A'', textChunk '' fox'', Chunk [], textChunk '' runs.''],
                ending = Exhausted\<rparr>"

text \<open>
  The streaming component after the fragment \<open>A\<close> of a summarize action; a component whose
  tracked length points beyond the document, as after text was deleted while an action
  streams; an answer that fails after two fragments.
\<close>

definition foxAfterA :: App where
  "foxAfterA = foxApp
     \<lparr>editor := Some (foxEditor\<lparr>doc := ''AThe quick brown fox. The end.''\<rparr>),
      state := \<lparr>isStreaming = True, error = None, insertedLength = 1\<rparr>,
      editorState := \<lparr>selectionRange = Some \<lparr>from_pos = 0, to_pos = 20\<rparr>\<rparr>,
      requests := getGroqChatCompletion (createMessages ''The quick brown fox.'') [],
      replaceCalls := [(0, 0, ''A'')]\<rparr>"

definition staleApp :: App where
  "staleApp = busyApp\<lparr>state := \<lparr>isStreaming = True, error = None, insertedLength = 40\<rparr>\<rparr>"

definition failingStream :: ChatStream where
  "failingStream = \<lparr>chunks = [textChunk ''A'', textChunk '' fox''],
                    ending = Fails (Error ''network down'')\<rparr>"

text \<open>The component at rest with a caret in the document and nothing selected.\<close>

definition caretApp :: App where
  "caretApp = foxApp\<lparr>editor := Some (foxEditor\<lparr>selection := \<lparr>from_pos = 4, to_pos = 4\<rparr>\<rparr>)\<rparr>"

section \<open>Facts about the phases\<close>

subsection \<open>Every handler is an instance of the one operation\<close>

lemma summarize_streamingOperation: "summarize = streamingOperation createMessages"
  by (auto simp: fun_eq_iff summarize_def streamingOperation_def hasSelection_def Let_def
      getSelectedText_def beginStreaming_def captureSelection_def split: option.splits)

lemma quickSummarize_streamingOperation: "quickSummarize = streamingOperation summarizeMessages"
  by (auto simp: fun_eq_iff quickSummarize_def streamingOperation_def hasSelection_def Let_def
      getSelectedText_def beginStreaming_def captureSelection_def split: option.splits)

lemma quickImprove_streamingOperation: "quickImprove = streamingOperation improveMessages"
  by (auto simp: fun_eq_iff quickImprove_def streamingOperation_def hasSelection_def Let_def
      getSelectedText_def beginStreaming_def captureSelection_def split: option.splits)

lemma quickComplete_streamingOperation: "quickComplete = streamingOperation completeMessages"
  by (auto simp: fun_eq_iff quickComplete_def streamingOperation_def hasSelection_def Let_def
      getSelectedText_def beginStreaming_def captureSelection_def split: option.splits)

lemma triggerAction_streamingOperation:
  "triggerAction a = streamingOperation (actionMessages a)"
  by (cases a)
     (simp_all add: summarize_streamingOperation quickSummarize_streamingOperation
        quickImprove_streamingOperation quickComplete_streamingOperation)

subsection \<open>One replacement\<close>

lemma replaceSelection_success:
  assumes "editor s = Some e" and "selectionRange (editorState s) = Some r"
    and "newText \<noteq> []" and "from_pos r + insertedLength (state s) \<le> length (doc e)"
  shows "replaceSelection newText s =
           s\<lparr>replaceCalls := replaceCalls s @ [(from_pos r, from_pos r + insertedLength (state s), newText)],
             editor := Some (e\<lparr>doc := take (from_pos r) (doc e) @ newText
                                      @ drop (from_pos r + insertedLength (state s)) (doc e)\<rparr>),
             state := (state s)\<lparr>insertedLength := length newText\<rparr>\<rparr>"
  using assms by (simp add: replaceSelection_def replaceWith_def Let_def)

lemma replaceSelection_failure:
  assumes "editor s = Some e" and "selectionRange (editorState s) = Some r"
    and "replaceWith (from_pos r) (from_pos r + insertedLength (state s)) newText (doc e) = None"
  shows "replaceSelection newText s =
           s\<lparr>replaceCalls := replaceCalls s @ [(from_pos r, from_pos r + insertedLength (state s), newText)],
             state := (state s)\<lparr>error := Some ''Error replacing selection''\<rparr>\<rparr>"
  using assms by (simp add: replaceSelection_def Let_def)

subsection \<open>The loop\<close>

lemma forAwait_fst: "fst (forAwait cs (acc, s)) = acc @ concat (map chunkContent cs)"
  by (induction cs arbitrary: acc s) (simp_all add: onChunk_def Let_def)

lemma forAwait_append: "forAwait (xs @ ys) acc = forAwait ys (forAwait xs acc)"
  by (induction xs arbitrary: acc) simp_all

text \<open>
  While the accumulated text stands in the document at the captured offset and
  \<open>insertedLength\<close> is its length, every replacement succeeds and the loop keeps it so.
\<close>

lemma forAwait_window:
  assumes "editor s = Some e" and "selectionRange (editorState s) = Some r"
    and "doc e = pre @ acc @ post" and "from_pos r = length pre"
    and "insertedLength (state s) = length acc"
  shows "snd (forAwait cs (acc, s)) =
           s\<lparr>replaceCalls := replaceCalls s @ windowCalls (length pre) acc cs,
             editor := Some (e\<lparr>doc := pre @ (acc @ concat (map chunkContent cs)) @ post\<rparr>),
             state := (state s)\<lparr>insertedLength := length (acc @ concat (map chunkContent cs))\<rparr>\<rparr>"
  using assms
proof (induction cs arbitrary: acc s e)
  case Nil
  then show ?case by simp
next
  case (Cons c cs)
  show ?case
  proof (cases "chunkContent c = []")
    case True
    then show ?thesis using Cons.IH [OF Cons.prems] by (simp add: onChunk_def Let_def)
  next
    case False
    let ?acc = "acc @ chunkContent c"
    let ?e = "e\<lparr>doc := pre @ ?acc @ post\<rparr>"
    let ?s = "s\<lparr>replaceCalls := replaceCalls s @ [(length pre, length pre + length acc, ?acc)],
                 editor := Some ?e,
                 state := (state s)\<lparr>insertedLength := length ?acc\<rparr>\<rparr>"
    have step: "replaceSelection ?acc s = ?s"
      using Cons.prems False
      by (simp add: replaceSelection_success [where e = e and r = r])
    have "snd (forAwait cs (?acc, ?s)) =
            ?s\<lparr>replaceCalls := replaceCalls ?s @ windowCalls (length pre) ?acc cs,
               editor := Some (?e\<lparr>doc := pre @ (?acc @ concat (map chunkContent cs)) @ post\<rparr>),
               state := (state ?s)\<lparr>insertedLength := length (?acc @ concat (map chunkContent cs))\<rparr>\<rparr>"
      by (rule Cons.IH) (simp_all add: Cons.prems)
    then show ?thesis using False step by (simp add: onChunk_def Let_def)
  qed
qed

subsection \<open>A whole operation\<close>

lemma textBetween_nonempty: "textBetween f t d \<noteq> [] \<Longrightarrow> f < length d \<and> f < t"
  by (auto simp: textBetween_def)

lemma streamingOperation_streams:
  assumes "editor s = Some e" and "from_pos (selection e) \<noteq> to_pos (selection e)"
    and "\<not> isStreaming (state s)"
    and "textBetween (from_pos (selection e)) (to_pos (selection e)) (doc e) \<noteq> []"
  shows "streamingOperation build chatStream s =
           finallyReset
             (endStream (ending chatStream)
                (snd (forAwait (chunks chatStream)
                        ([], requestCompletion
                               (build (textBetween (from_pos (selection e)) (to_pos (selection e)) (doc e)))
                               (captureSelection e (beginStreaming s))))))"
  using assms by (simp add: streamingOperation_def Let_def)

lemma forAwait_started:
  assumes "editor s = Some e"
    and "textBetween (from_pos (selection e)) (to_pos (selection e)) (doc e) \<noteq> []"
    and "s3 = requestCompletion msgs (captureSelection e (beginStreaming s))"
  shows "forAwait cs ([], s3) =
           (concat (map chunkContent cs),
            s3\<lparr>replaceCalls := replaceCalls s3 @ windowCalls (from_pos (selection e)) [] cs,
               editor := Some (e\<lparr>doc := take (from_pos (selection e)) (doc e)
                                        @ concat (map chunkContent cs)
                                        @ drop (from_pos (selection e)) (doc e)\<rparr>),
               state := (state s3)\<lparr>insertedLength := length (concat (map chunkContent cs))\<rparr>\<rparr>)"
proof -
  let ?f = "from_pos (selection e)"
  have f: "?f < length (doc e)" using assms(2) by (simp add: textBetween_nonempty)
  have "snd (forAwait cs ([], s3)) =
          s3\<lparr>replaceCalls := replaceCalls s3 @ windowCalls (length (take ?f (doc e))) [] cs,
             editor := Some (e\<lparr>doc := take ?f (doc e) @ ([] @ concat (map chunkContent cs)) @ drop ?f (doc e)\<rparr>),
             state := (state s3)\<lparr>insertedLength := length ([] @ concat (map chunkContent cs))\<rparr>\<rparr>"
    by (rule forAwait_window [where r = "selection e"])
       (use assms f in \<open>simp_all add: requestCompletion_def captureSelection_def beginStreaming_def\<close>)
  moreover have "fst (forAwait cs ([], s3)) = concat (map chunkContent cs)"
    by (simp add: forAwait_fst)
  ultimately show ?thesis using f by (simp add: prod_eq_iff min_def)
qed

lemma streamingOperation_closed:
  assumes "editor s = Some e" and "from_pos (selection e) \<noteq> to_pos (selection e)"
    and "\<not> isStreaming (state s)"
    and "textBetween (from_pos (selection e)) (to_pos (selection e)) (doc e) \<noteq> []"
  shows "streamingOperation build chatStream s =
           s\<lparr>requests := getGroqChatCompletion
                           (build (textBetween (from_pos (selection e)) (to_pos (selection e)) (doc e)))
                           (requests s),
             replaceCalls := replaceCalls s @ windowCalls (from_pos (selection e)) [] (chunks chatStream),
             editor := Some (e\<lparr>doc := take (from_pos (selection e)) (doc e)
                                      @ concat (map chunkContent (chunks chatStream))
                                      @ drop (from_pos (selection e)) (doc e)\<rparr>),
             state := \<lparr>isStreaming = False,
                       error = (case ending chatStream of
                                  Exhausted \<Rightarrow> None
                                | Fails t \<Rightarrow> Some (errorMessage t)),
                       insertedLength = 0\<rparr>,
             editorState := (editorState s)\<lparr>selectionRange := None\<rparr>\<rparr>"
proof -
  define s3 where "s3 = requestCompletion
      (build (textBetween (from_pos (selection e)) (to_pos (selection e)) (doc e)))
      (captureSelection e (beginStreaming s))"
  have op: "streamingOperation build chatStream s =
          finallyReset (endStream (ending chatStream) (snd (forAwait (chunks chatStream) ([], s3))))"
    unfolding s3_def by (rule streamingOperation_streams [OF assms])
  show ?thesis
    unfolding op forAwait_started [OF assms(1) assms(4) s3_def]
    by (simp add: s3_def finallyReset_def endStream_def catchStreaming_def requestCompletion_def
        captureSelection_def beginStreaming_def split: StreamEnd.splits)
qed

lemma streamingOperation_noop:
  assumes "\<not> hasSelection s \<or> isStreaming (state s)"
  shows "streamingOperation build chatStream s = s"
  using assms by (auto simp: streamingOperation_def hasSelection_def split: option.splits)

lemma streamingOperation_no_text:
  assumes "editor s = Some e" and "from_pos (selection e) \<noteq> to_pos (selection e)"
    and "\<not> isStreaming (state s)"
    and "textBetween (from_pos (selection e)) (to_pos (selection e)) (doc e) = []"
  shows "streamingOperation build chatStream s =
           s\<lparr>state := \<lparr>isStreaming = False, error = Some ''No text selected.'', insertedLength = 0\<rparr>,
             editorState := (editorState s)\<lparr>selectionRange := None\<rparr>\<rparr>"
  using assms
  by (simp add: streamingOperation_def Let_def finallyReset_def catchStreaming_def
      captureSelection_def beginStreaming_def errorMessage_def)

lemma streamingOperation_same_transitions:
  "(streamingOperation build chatStream s)\<lparr>requests := rs\<rparr>
     = (streamingOperation build' chatStream s)\<lparr>requests := rs\<rparr>"
proof (cases "\<not> hasSelection s \<or> isStreaming (state s)")
  case True
  then show ?thesis by (simp add: streamingOperation_noop)
next
  case False
  then obtain e where e: "editor s = Some e" "from_pos (selection e) \<noteq> to_pos (selection e)"
      "\<not> isStreaming (state s)"
    by (auto simp: hasSelection_def split: option.splits)
  show ?thesis
  proof (cases "textBetween (from_pos (selection e)) (to_pos (selection e)) (doc e) = []")
    case True
    then show ?thesis using e by (simp add: streamingOperation_no_text)
  next
    case False
    then show ?thesis using e by (simp add: streamingOperation_closed)
  qed
qed

lemma actionMessages_roles:
  "map (\<lambda>m. m\<lparr>content := []\<rparr>) (actionMessages a selectedText)
     = [\<lparr>role = System, content = []\<rparr>, \<lparr>role = User, content = []\<rparr>]"
  by (cases a)
     (simp_all add: createMessages_def summarizeMessages_def improveMessages_def
        completeMessages_def)

lemma callText_triple: "callText (f, t, newText) = newText"
  by (simp add: callText_def)

lemma streamingOperation_idle:
  assumes "hasSelection s" and "\<not> isStreaming (state s)"
  shows "isStreaming (state (streamingOperation build chatStream s)) = False
         \<and> insertedLength (state (streamingOperation build chatStream s)) = 0
         \<and> selectionRange (editorState (streamingOperation build chatStream s)) = None"
proof -
  from assms obtain e where e: "editor s = Some e" "from_pos (selection e) \<noteq> to_pos (selection e)"
    by (auto simp: hasSelection_def split: option.splits)
  show ?thesis
  proof (cases "textBetween (from_pos (selection e)) (to_pos (selection e)) (doc e) = []")
    case True
    then show ?thesis using e assms(2) by (simp add: streamingOperation_no_text)
  next
    case False
    then show ?thesis using e assms(2) by (simp add: streamingOperation_closed)
  qed
qed

lemma replaceSelection_attempt:
  assumes "editor s = Some e" and "selectionRange (editorState s) = Some r"
  shows "(\<exists>e'. editor (replaceSelection newText s) = Some e')
         \<and> selectionRange (editorState (replaceSelection newText s)) = Some r
         \<and> map callText (replaceCalls (replaceSelection newText s))
             = map callText (replaceCalls s) @ [newText]"
  using assms by (simp add: replaceSelection_def Let_def callText_triple split: option.splits)

lemma forAwait_attempts:
  assumes "editor s = Some e" and "selectionRange (editorState s) = Some r"
  shows "map callText (replaceCalls (snd (forAwait cs (acc, s))))
           = map callText (replaceCalls s) @ map callText (windowCalls f acc cs)"
  using assms
proof (induction cs arbitrary: acc s e)
  case Nil
  then show ?case by simp
next
  case (Cons c cs)
  show ?case
  proof (cases "chunkContent c = []")
    case True
    then show ?thesis using Cons.IH [OF Cons.prems] by (simp add: onChunk_def Let_def)
  next
    case False
    let ?s = "replaceSelection (acc @ chunkContent c) s"
    from replaceSelection_attempt [OF Cons.prems, of "acc @ chunkContent c"]
    obtain e' where e': "editor ?s = Some e'"
      and r: "selectionRange (editorState ?s) = Some r"
      and calls: "map callText (replaceCalls ?s)
                    = map callText (replaceCalls s) @ [acc @ chunkContent c]"
      by blast
    show ?thesis
      using False Cons.IH [OF e' r, of "acc @ chunkContent c"] calls
      by (simp add: onChunk_def Let_def callText_triple)
  qed
qed

subsection \<open>Chat send\<close>

lemma forAwaitChat_eq: "forAwaitChat cs (response, s) = (response @ concat (map chunkContent cs), s)"
  by (induction cs arbitrary: response) (simp_all add: onChatChunk_def Let_def)

lemma sendMessage_phases:
  assumes "trim text \<noteq> []"
  shows "sendMessage text selectedText chatStream s =
           (case ending chatStream of
              Exhausted \<Rightarrow>
                (chatStart text selectedText s)
                  \<lparr>chatMessages := chatMessages (chatStart text selectedText s)
                     @ [\<lparr>role = Assistant, content = concat (map chunkContent (chunks chatStream))\<rparr>]\<rparr>
            | Fails t \<Rightarrow> chatStart text selectedText s)
           \<lparr>isChatLoading := False, newMessage := []\<rparr>"
  using assms by (simp add: sendMessage_def forAwaitChat_eq Let_def split: StreamEnd.splits)

lemma chatStart_fields:
  "chatMessages (chatStart text selectedText s) = chatMessages s @ [\<lparr>role = User, content = text\<rparr>]"
  "isChatLoading (chatStart text selectedText s) = True"
  "requests (chatStart text selectedText s) =
     getGroqChatCompletion
       [\<lparr>role = System,
         content = chatSystemContent
                     (if selectedText \<noteq> [] then selectedText else getSelectedText s)
                     (case editor s of None \<Rightarrow> [] | Some e \<Rightarrow> getHTML e)\<rparr>,
        \<lparr>role = User, content = text\<rparr>]
       (requests s)"
  by (simp_all add: chatStart_def Let_def requestCompletion_def getSelectedText_def
      split: option.splits)

section \<open>Theorems\<close>

text \<open>
  C1. In every operation that reaches its streaming phase (a non-empty selection with text, no
  operation active), and for every chunk of the answer, wherever it stands in the sequence:
  the operation is the start state, the loop over the chunks before it, the step for this
  chunk, the loop over the rest and the return to idle; when the chunk arrives the captured
  range is still the selection taken at the start; the step extends the accumulated text by
  the chunk's content, leaves the document with the window from the captured start over
  \<open>insertedLength\<close> characters replaced by the whole accumulated text, and leaves
  \<open>insertedLength\<close> equal to the length of the accumulated text. A chunk with a non-empty
  content asks the widget for exactly that replacement; a chunk without content asks for
  none, and the document already reads as stated. The operation runs without edits from
  outside between its chunks.
\<close>

theorem C1_each_fragment_replaces_window:
  assumes "editor s = Some e"
    and "from_pos (selection e) \<noteq> to_pos (selection e)"
    and "\<not> isStreaming (state s)"
    and "textBetween (from_pos (selection e)) (to_pos (selection e)) (doc e) \<noteq> []"
    and "chunks chatStream = before @ chunk # after"
    and "forAwait before
           ([], requestCompletion
                  (actionMessages a (textBetween (from_pos (selection e)) (to_pos (selection e)) (doc e)))
                  (captureSelection e (beginStreaming s)))
         = (acc, s4)"
  shows "triggerAction a chatStream s
           = finallyReset (endStream (ending chatStream)
               (snd (forAwait after (onChunk chunk (acc, s4)))))
         \<and> selectionRange (editorState s4) = Some (selection e)
         \<and> fst (onChunk chunk (acc, s4)) = acc @ chunkContent chunk
         \<and> (\<exists>e4. editor s4 = Some e4
                \<and> editor (snd (onChunk chunk (acc, s4)))
                    = Some (e4\<lparr>doc := take (from_pos (selection e)) (doc e4)
                                      @ (acc @ chunkContent chunk)
                                      @ drop (from_pos (selection e) + insertedLength (state s4)) (doc e4)\<rparr>))
         \<and> insertedLength (state (snd (onChunk chunk (acc, s4)))) = length (acc @ chunkContent chunk)
         \<and> (chunkContent chunk \<noteq> [] \<longrightarrow>
              replaceCalls (snd (onChunk chunk (acc, s4)))
                = replaceCalls s4
                  @ [(from_pos (selection e), from_pos (selection e) + insertedLength (state s4),
                      acc @ chunkContent chunk)])"
proof -
  let ?f = "from_pos (selection e)"
  let ?txt = "textBetween ?f (to_pos (selection e)) (doc e)"
  define s3 where "s3 = requestCompletion (actionMessages a ?txt) (captureSelection e (beginStreaming s))"
  define e4 where "e4 = e\<lparr>doc := take ?f (doc e) @ acc @ drop ?f (doc e)\<rparr>"
  have f: "?f < length (doc e)" using assms(4) by (simp add: textBetween_nonempty)
  have started: "forAwait before ([], s3) = (acc, s4)"
    using assms(6) by (simp add: s3_def)
  have acc: "acc = concat (map chunkContent before)"
    and s4: "s4 = s3\<lparr>replaceCalls := replaceCalls s3 @ windowCalls ?f [] before,
                     editor := Some (e\<lparr>doc := take ?f (doc e) @ concat (map chunkContent before)
                                              @ drop ?f (doc e)\<rparr>),
                     state := (state s3)\<lparr>insertedLength := length (concat (map chunkContent before))\<rparr>\<rparr>"
    using started unfolding forAwait_started [OF assms(1,4) s3_def] by auto
  have ed: "editor s4 = Some e4" by (simp add: s4 e4_def acc)
  have rg: "selectionRange (editorState s4) = Some (selection e)"
    by (simp add: s4 s3_def requestCompletion_def captureSelection_def)
  have il: "insertedLength (state s4) = length acc" by (simp add: s4 acc)
  have d4: "take ?f (doc e4) = take ?f (doc e)" "drop (?f + length acc) (doc e4) = drop ?f (doc e)"
    using f by (simp_all add: e4_def min_def)
  have whole: "triggerAction a chatStream s
           = finallyReset (endStream (ending chatStream)
               (snd (forAwait after (onChunk chunk (acc, s4)))))"
    unfolding triggerAction_streamingOperation streamingOperation_streams [OF assms(1-4)]
    by (simp add: assms(5) forAwait_append started [unfolded s3_def])
  show ?thesis
  proof (cases "chunkContent chunk = []")
    case True
    have "e4\<lparr>doc := take ?f (doc e4) @ acc @ drop (?f + length acc) (doc e4)\<rparr> = e4"
      unfolding d4 by (simp add: e4_def)
    then show ?thesis
      using True whole rg ed il by (simp add: onChunk_def Let_def)
  next
    case False
    have ok: "from_pos (selection e) + insertedLength (state s4) \<le> length (doc e4)"
      using f by (simp add: il e4_def)
    show ?thesis
      using False whole rg ed il
      by (simp add: onChunk_def Let_def replaceSelection_success [OF ed rg _ ok])
  qed
qed

theorem C1_each_fragment_replaces_window_witness:
  "editor foxApp = Some foxEditor
   \<and> from_pos (selection foxEditor) \<noteq> to_pos (selection foxEditor)
   \<and> \<not> isStreaming (state foxApp)
   \<and> textBetween (from_pos (selection foxEditor)) (to_pos (selection foxEditor)) (doc foxEditor)
       = ''The quick brown fox.''
   \<and> chunks foxStream = [textChunk ''A''] @ textChunk '' fox'' # [Chunk [], textChunk '' runs.'']
   \<and> forAwait [textChunk ''A'']
         ([], requestCompletion (actionMessages SummarizeButton ''The quick brown fox.'')
                (captureSelection foxEditor (beginStreaming foxApp)))
       = (''A'', foxAfterA)
   \<and> fst (onChunk (textChunk '' fox'') (''A'', foxAfterA)) = ''A fox''
   \<and> editor (snd (onChunk (textChunk '' fox'') (''A'', foxAfterA)))
       = Some (foxEditor\<lparr>doc := ''A foxThe quick brown fox. The end.''\<rparr>)
   \<and> insertedLength (state (snd (onChunk (textChunk '' fox'') (''A'', foxAfterA)))) = 5
   \<and> replaceCalls (snd (onChunk (textChunk '' fox'') (''A'', foxAfterA)))
       = [(0, 0, ''A''), (0, 1, ''A fox'')]"
proof -
  have h1: "editor foxApp = Some foxEditor" by (simp add: foxApp_def)
  have h2: "from_pos (selection foxEditor) \<noteq> to_pos (selection foxEditor)"
    by (simp add: foxEditor_def)
  have h3: "\<not> isStreaming (state foxApp)" by (simp add: foxApp_def)
  have seltext: "textBetween (from_pos (selection foxEditor)) (to_pos (selection foxEditor)) (doc foxEditor)
       = ''The quick brown fox.''"
    by (simp add: foxEditor_def textBetween_def)
  have h4: "textBetween (from_pos (selection foxEditor)) (to_pos (selection foxEditor)) (doc foxEditor) \<noteq> []"
    by (simp add: seltext)
  have h5: "chunks foxStream = [textChunk ''A''] @ textChunk '' fox'' # [Chunk [], textChunk '' runs.'']"
    by (simp add: foxStream_def)
  have h6: "forAwait [textChunk ''A'']
         ([], requestCompletion
                (actionMessages SummarizeButton
                   (textBetween (from_pos (selection foxEditor)) (to_pos (selection foxEditor)) (doc foxEditor)))
                (captureSelection foxEditor (beginStreaming foxApp)))
       = (''A'', foxAfterA)"
    unfolding seltext
    by (simp add: onChunk_def replaceSelection_def replaceWith_def requestCompletion_def
        captureSelection_def beginStreaming_def Let_def foxApp_def foxEditor_def textChunk_def chunkContent_def
        foxAfterA_def createMessages_def getGroqChatCompletion_def)
  have a: "editor foxAfterA = Some (foxEditor\<lparr>doc := ''AThe quick brown fox. The end.''\<rparr>)"
    by (simp add: foxAfterA_def)
  have b: "insertedLength (state foxAfterA) = 1" "replaceCalls foxAfterA = [(0, 0, ''A'')]"
    by (simp_all add: foxAfterA_def)
  have c: "chunkContent (textChunk '' fox'') = '' fox''" "from_pos (selection foxEditor) = 0"
    by (simp_all add: textChunk_def chunkContent_def foxEditor_def)
  show ?thesis
    using C1_each_fragment_replaces_window [OF h1 h2 h3 h4 h5 h6] h1 h2 h3 seltext h5 h6
    by (simp add: a b c)
qed

text \<open>
  C2. The scenario of the specification, run on the code. The sentence \<open>The quick brown fox.\<close> is
  selected at the start of the document, summarize is triggered and the fragments \<open>A\<close>,
  \<open> fox\<close>, \<open> runs.\<close> arrive (with one chunk without content among them). The first
  replacement is asked over the empty window at the captured start, the later ones over the
  text inserted before: the end of the captured selection is never part of a window. The
  document ends with the concatenation of the fragments standing before the selected
  sentence, which is still there; it is not the document in which the concatenation has
  replaced the selection.
\<close>

theorem C2_answer_inserted_before_kept_selection:
  "hasSelection foxApp \<and> \<not> isStreaming (state foxApp)
   \<and> textBetween (from_pos (selection foxEditor)) (to_pos (selection foxEditor)) (doc foxEditor)
       = ''The quick brown fox.''
   \<and> concat (map chunkContent (chunks foxStream)) = ''A fox runs.''
   \<and> replaceCalls (triggerAction SummarizeButton foxStream foxApp)
       = [(0, 0, ''A''), (0, 1, ''A fox''), (0, 5, ''A fox runs.'')]
   \<and> editor (triggerAction SummarizeButton foxStream foxApp)
       = Some (foxEditor\<lparr>doc := ''A fox runs.The quick brown fox. The end.''\<rparr>)
   \<and> editor (triggerAction SummarizeButton foxStream foxApp)
       \<noteq> Some (foxEditor\<lparr>doc := ''A fox runs. The end.''\<rparr>)"
proof -
  have h1: "editor foxApp = Some foxEditor" by (simp add: foxApp_def)
  have h2: "from_pos (selection foxEditor) \<noteq> to_pos (selection foxEditor)"
    by (simp add: foxEditor_def)
  have h3: "\<not> isStreaming (state foxApp)" by (simp add: foxApp_def)
  have sel: "textBetween (from_pos (selection foxEditor)) (to_pos (selection foxEditor)) (doc foxEditor)
       = ''The quick brown fox.''"
    by (simp add: foxEditor_def textBetween_def)
  have h4: "textBetween (from_pos (selection foxEditor)) (to_pos (selection foxEditor)) (doc foxEditor) \<noteq> []"
    by (simp add: sel)
  have has: "hasSelection foxApp" by (simp add: hasSelection_def h1 h2)
  have cc: "chunkContent (textChunk t) = t" "chunkContent (Chunk []) = []" for t
    by (simp_all add: textChunk_def chunkContent_def)
  have fragments: "concat (map chunkContent (chunks foxStream)) = ''A fox runs.''"
    by (simp add: foxStream_def cc)
  have calls: "windowCalls 0 [] (chunks foxStream)
                 = [(0, 0, ''A''), (0, 1, ''A fox''), (0, 5, ''A fox runs.'')]"
    by (simp add: foxStream_def cc)
  have d: "from_pos (selection foxEditor) = 0" "doc foxEditor = ''The quick brown fox. The end.''"
    "replaceCalls foxApp = []"
    by (simp_all add: foxEditor_def foxApp_def)
  have run: "triggerAction SummarizeButton foxStream foxApp
               = streamingOperation createMessages foxStream foxApp"
    by (simp add: summarize_streamingOperation)
  have result: "replaceCalls (triggerAction SummarizeButton foxStream foxApp)
                  = [(0, 0, ''A''), (0, 1, ''A fox''), (0, 5, ''A fox runs.'')]"
    "editor (triggerAction SummarizeButton foxStream foxApp)
       = Some (foxEditor\<lparr>doc := ''A fox runs.The quick brown fox. The end.''\<rparr>)"
    unfolding run streamingOperation_closed [OF h1 h2 h3 h4]
    by (simp_all add: fragments calls d)
  have differs: "foxEditor\<lparr>doc := ''A fox runs.The quick brown fox. The end.''\<rparr>
                   \<noteq> foxEditor\<lparr>doc := ''A fox runs. The end.''\<rparr>"
  proof
    assume "foxEditor\<lparr>doc := ''A fox runs.The quick brown fox. The end.''\<rparr>
              = foxEditor\<lparr>doc := ''A fox runs. The end.''\<rparr>"
    then have "doc (foxEditor\<lparr>doc := ''A fox runs.The quick brown fox. The end.''\<rparr>)
                 = doc (foxEditor\<lparr>doc := ''A fox runs. The end.''\<rparr>)"
      by (rule arg_cong)
    then show False by simp
  qed
  show ?thesis
    unfolding result using has h3 sel fragments differs by simp
qed

text \<open>
  C3. At most one streaming operation is active: in every state whose \<open>isStreaming\<close> flag
  is set, triggering any of the AI actions returns the state as it was. The state holds the
  trace of the completion requests, so no request is issued.
\<close>

theorem C3_trigger_while_active_is_noop:
  "isStreaming (state s) \<Longrightarrow>
     triggerAction a chatStream s = s
     \<and> requests (triggerAction a chatStream s) = requests s"
  by (simp add: triggerAction_streamingOperation streamingOperation_noop)

theorem C3_trigger_while_active_is_noop_witness:
  "isStreaming (state busyApp)
   \<and> triggerAction QuickImprove foxStream busyApp = busyApp
   \<and> requests (triggerAction QuickImprove foxStream busyApp) = requests busyApp"
proof -
  have h: "isStreaming (state busyApp)" by (simp add: busyApp_def)
  show ?thesis using h C3_trigger_while_active_is_noop [OF h, of QuickImprove foxStream] by simp
qed

text \<open>
  C4. With an empty selection (its start equals its end), triggering any of the AI actions
  returns the state as it was: no completion request is issued, the streaming state (the
  flag, the recorded error and the inserted length) is the one before, so an idle
  component stays idle and no error is recorded.
\<close>

theorem C4_empty_selection_is_noop:
  assumes "editor s = Some e" and "from_pos (selection e) = to_pos (selection e)"
  shows "triggerAction a chatStream s = s
         \<and> requests (triggerAction a chatStream s) = requests s
         \<and> state (triggerAction a chatStream s) = state s"
  using assms
  by (simp add: triggerAction_streamingOperation streamingOperation_noop hasSelection_def)

theorem C4_empty_selection_is_noop_witness:
  "editor caretApp = Some (foxEditor\<lparr>selection := \<lparr>from_pos = 4, to_pos = 4\<rparr>\<rparr>)
   \<and> from_pos (selection (foxEditor\<lparr>selection := \<lparr>from_pos = 4, to_pos = 4\<rparr>\<rparr>))
       = to_pos (selection (foxEditor\<lparr>selection := \<lparr>from_pos = 4, to_pos = 4\<rparr>\<rparr>))
   \<and> triggerAction QuickImprove foxStream caretApp = caretApp
   \<and> requests (triggerAction QuickImprove foxStream caretApp) = []
   \<and> state (triggerAction QuickImprove foxStream caretApp)
       = \<lparr>isStreaming = False, error = None, insertedLength = 0\<rparr>"
proof -
  let ?e = "foxEditor\<lparr>selection := \<lparr>from_pos = 4, to_pos = 4\<rparr>\<rparr>"
  have h1: "editor caretApp = Some ?e" by (simp add: caretApp_def)
  have h2: "from_pos (selection ?e) = to_pos (selection ?e)" by simp
  have idle: "state caretApp = \<lparr>isStreaming = False, error = None, insertedLength = 0\<rparr>"
    "requests caretApp = []"
    by (simp_all add: caretApp_def foxApp_def)
  show ?thesis
    using C4_empty_selection_is_noop [OF h1 h2, of QuickImprove foxStream] h1 idle by simp
qed

text \<open>
  C5. When the widget rejects the replacement asked for one fragment, the step records the
  error \<open>Error replacing selection\<close>, keeps the document and \<open>insertedLength\<close> as they
  were, and returns; the loop goes on with the remaining chunks; and the texts of the
  replacements asked of the widget over the whole loop are the successive accumulated
  texts, one for every chunk with a non-empty content, the failed one and all later ones
  included.
\<close>

theorem C5_replace_failure_does_not_abort:
  assumes "editor s = Some e" and "selectionRange (editorState s) = Some r"
    and "chunkContent chunk \<noteq> []"
    and "replaceWith (from_pos r) (from_pos r + insertedLength (state s))
           (acc @ chunkContent chunk) (doc e) = None"
  shows "onChunk chunk (acc, s) =
           (acc @ chunkContent chunk,
            s\<lparr>replaceCalls := replaceCalls s
                 @ [(from_pos r, from_pos r + insertedLength (state s), acc @ chunkContent chunk)],
              state := (state s)\<lparr>error := Some ''Error replacing selection''\<rparr>\<rparr>)
         \<and> forAwait (chunk # rest) (acc, s) = forAwait rest (onChunk chunk (acc, s))
         \<and> map callText (replaceCalls (snd (forAwait (chunk # rest) (acc, s))))
             = map callText (replaceCalls s)
               @ map callText (windowCalls (from_pos r) acc (chunk # rest))"
proof (intro conjI)
  show "onChunk chunk (acc, s) =
           (acc @ chunkContent chunk,
            s\<lparr>replaceCalls := replaceCalls s
                 @ [(from_pos r, from_pos r + insertedLength (state s), acc @ chunkContent chunk)],
              state := (state s)\<lparr>error := Some ''Error replacing selection''\<rparr>\<rparr>)"
    using assms(3) replaceSelection_failure [OF assms(1,2,4)]
    by (simp add: onChunk_def Let_def)
  show "forAwait (chunk # rest) (acc, s) = forAwait rest (onChunk chunk (acc, s))"
    by simp
  show "map callText (replaceCalls (snd (forAwait (chunk # rest) (acc, s))))
             = map callText (replaceCalls s)
               @ map callText (windowCalls (from_pos r) acc (chunk # rest))"
    by (rule forAwait_attempts [OF assms(1,2)])
qed

theorem C5_replace_failure_does_not_abort_witness:
  "editor staleApp = Some foxEditor
   \<and> selectionRange (editorState staleApp) = Some \<lparr>from_pos = 0, to_pos = 20\<rparr>
   \<and> chunkContent (textChunk ''B'') \<noteq> []
   \<and> replaceWith 0 (0 + insertedLength (state staleApp)) (''A'' @ ''B'') (doc foxEditor) = None
   \<and> error (state (snd (onChunk (textChunk ''B'') (''A'', staleApp))))
       = Some ''Error replacing selection''
   \<and> editor (snd (onChunk (textChunk ''B'') (''A'', staleApp))) = Some foxEditor
   \<and> insertedLength (state (snd (onChunk (textChunk ''B'') (''A'', staleApp)))) = 40
   \<and> map callText (replaceCalls (snd (forAwait
          (textChunk ''B'' # [textChunk ''C'', Chunk [], textChunk ''D'']) (''A'', staleApp))))
       = [''AB'', ''ABC'', ''ABCD'']"
proof -
  let ?r = "\<lparr>from_pos = 0, to_pos = 20\<rparr>"
  have h1: "editor staleApp = Some foxEditor" by (simp add: staleApp_def busyApp_def foxApp_def)
  have h2: "selectionRange (editorState staleApp) = Some ?r"
    by (simp add: staleApp_def busyApp_def)
  have h3: "chunkContent (textChunk ''B'') \<noteq> []" by (simp add: textChunk_def chunkContent_def)
  have il: "insertedLength (state staleApp) = 40" by (simp add: staleApp_def)
  have h4: "replaceWith (from_pos ?r) (from_pos ?r + insertedLength (state staleApp))
              (''A'' @ chunkContent (textChunk ''B'')) (doc foxEditor) = None"
    by (simp add: il replaceWith_def foxEditor_def)
  have calls: "replaceCalls staleApp = []" by (simp add: staleApp_def busyApp_def foxApp_def)
  have st: "state staleApp = \<lparr>isStreaming = True, error = None, insertedLength = 40\<rparr>"
    by (simp add: staleApp_def)
  have cc: "chunkContent (textChunk t) = t" "chunkContent (Chunk []) = []" for t
    by (simp_all add: textChunk_def chunkContent_def)
  note fails = C5_replace_failure_does_not_abort [OF h1 h2 h3 h4, of "[textChunk ''C'', Chunk [], textChunk ''D'']"]
  have step: "onChunk (textChunk ''B'') (''A'', staleApp)
      = (''AB'', staleApp\<lparr>replaceCalls := [(0, 40, ''AB'')],
                  state := \<lparr>isStreaming = True, error = Some ''Error replacing selection'',
                            insertedLength = 40\<rparr>\<rparr>)"
    using fails [THEN conjunct1] by (simp add: calls st cc)
  have attempts: "map callText (replaceCalls (snd (forAwait
          (textChunk ''B'' # [textChunk ''C'', Chunk [], textChunk ''D'']) (''A'', staleApp))))
       = [''AB'', ''ABC'', ''ABCD'']"
    using fails [THEN conjunct2, THEN conjunct2]
    by (simp add: calls cc callText_triple del: forAwait.simps)
  have h4': "replaceWith 0 (0 + insertedLength (state staleApp)) (''A'' @ ''B'') (doc foxEditor) = None"
    using h4 by (simp add: cc)
  show ?thesis
    unfolding step using h1 h2 h3 h4' attempts
    by (simp del: forAwait.simps)
qed

text \<open>
  C6. Every operation that starts (selection present, none active) ends idle: the streaming
  flag is false, the captured range is cleared and \<open>insertedLength\<close> is 0, whatever the
  selected text and however the answer ends. When the answer fails after some fragments,
  the message of the failure is the recorded error and the document holds the fragments
  applied before the failure.
\<close>

theorem C6_operation_returns_to_idle:
  assumes "hasSelection s" and "\<not> isStreaming (state s)" and "editor s = Some e"
  shows "isStreaming (state (triggerAction a chatStream s)) = False
         \<and> selectionRange (editorState (triggerAction a chatStream s)) = None
         \<and> insertedLength (state (triggerAction a chatStream s)) = 0
         \<and> (textBetween (from_pos (selection e)) (to_pos (selection e)) (doc e) \<noteq> []
              \<and> ending chatStream = Fails t \<longrightarrow>
            error (state (triggerAction a chatStream s)) = Some (errorMessage t)
            \<and> editor (triggerAction a chatStream s)
                = Some (e\<lparr>doc := take (from_pos (selection e)) (doc e)
                                 @ concat (map chunkContent (chunks chatStream))
                                 @ drop (from_pos (selection e)) (doc e)\<rparr>))"
proof -
  have sel: "from_pos (selection e) \<noteq> to_pos (selection e)"
    using assms(1,3) by (simp add: hasSelection_def)
  show ?thesis
    using streamingOperation_idle [OF assms(1,2), of "actionMessages a" chatStream]
    by (simp add: triggerAction_streamingOperation
        streamingOperation_closed [OF assms(3) sel assms(2)])
qed

theorem C6_operation_returns_to_idle_witness:
  "hasSelection foxApp \<and> \<not> isStreaming (state foxApp) \<and> editor foxApp = Some foxEditor
   \<and> textBetween (from_pos (selection foxEditor)) (to_pos (selection foxEditor)) (doc foxEditor) \<noteq> []
   \<and> ending failingStream = Fails (Error ''network down'')
   \<and> isStreaming (state (triggerAction QuickComplete failingStream foxApp)) = False
   \<and> selectionRange (editorState (triggerAction QuickComplete failingStream foxApp)) = None
   \<and> insertedLength (state (triggerAction QuickComplete failingStream foxApp)) = 0
   \<and> error (state (triggerAction QuickComplete failingStream foxApp)) = Some ''network down''
   \<and> editor (triggerAction QuickComplete failingStream foxApp)
       = Some (foxEditor\<lparr>doc := ''A foxThe quick brown fox. The end.''\<rparr>)"
proof -
  have h1: "hasSelection foxApp" by (simp add: hasSelection_def foxApp_def foxEditor_def)
  have h2: "\<not> isStreaming (state foxApp)" by (simp add: foxApp_def)
  have h3: "editor foxApp = Some foxEditor" by (simp add: foxApp_def)
  have h4: "textBetween (from_pos (selection foxEditor)) (to_pos (selection foxEditor)) (doc foxEditor) \<noteq> []"
    by (simp add: foxEditor_def textBetween_def)
  have h5: "ending failingStream = Fails (Error ''network down'')" by (simp add: failingStream_def)
  have c: "concat (map chunkContent (chunks failingStream)) = ''A fox''"
    by (simp add: failingStream_def textChunk_def chunkContent_def)
  have d: "from_pos (selection foxEditor) = 0" "doc foxEditor = ''The quick brown fox. The end.''"
    by (simp_all add: foxEditor_def)
  show ?thesis
    using C6_operation_returns_to_idle [OF h1 h2 h3, of QuickComplete failingStream "Error ''network down''"] h1 h2 h3 h4 h5
    by (simp add: c d errorMessage_def)
qed

text \<open>
  C7. Every invocation of the completion client issues exactly one request: the trace of
  requests grows by one entry. That entry carries the given messages, \<open>stream = true\<close>, the
  model identifier \<open>llama3-8b-8192\<close>, the temperature \<open>0.7\<close> and the token limit \<open>1024\<close>;
  the last four are the same for any two invocations, whatever their messages and whatever
  was issued before.
\<close>

theorem C7_request_parameters_fixed:
  "length (getGroqChatCompletion msgs issued) = Suc (length issued)
   \<and> butlast (getGroqChatCompletion msgs issued) = issued
   \<and> messages (last (getGroqChatCompletion msgs issued)) = msgs
   \<and> stream (last (getGroqChatCompletion msgs issued)) = True
   \<and> model (last (getGroqChatCompletion msgs issued)) = ''llama3-8b-8192''
   \<and> temperature (last (getGroqChatCompletion msgs issued)) = 7 / 10
   \<and> max_tokens (last (getGroqChatCompletion msgs issued)) = 1024
   \<and> CompletionRequest.truncate (last (getGroqChatCompletion msgs issued)\<lparr>messages := []\<rparr>)
       = CompletionRequest.truncate (last (getGroqChatCompletion msgs' issued')\<lparr>messages := []\<rparr>)"
  by (simp add: getGroqChatCompletion_def CompletionRequest.truncate_def)

text \<open>
  C8. A chat send with text selected, run on the code. The sentence \<open>The quick brown fox.\<close>
  is selected, no AI action is running, and a message is sent from the input box, so that
  \<^verbatim>\<open>sendMessage\<close> gets no selected text of its own. The user message and, once the answer
  is exhausted, the assistant message with the whole answer are appended to the transcript.
  The request, however, carries a system message with the export of the whole document and
  no line for the selected text: it is the very request that is issued when nothing is
  selected. \<^verbatim>\<open>getSelectedText\<close> reads the range that a running AI action has captured,
  and there is none.
\<close>

theorem C8_selected_text_missing_from_chat_request:
  "hasSelection foxApp
   \<and> textBetween (from_pos (selection foxEditor)) (to_pos (selection foxEditor)) (doc foxEditor)
       = ''The quick brown fox.''
   \<and> selectionRange (editorState foxApp) = None
   \<and> map content (messages (last (requests (sendMessage ''Shorter?'' [] foxStream foxApp))))
       = [''You are a helpful writing assistant. You have access to the following context:''
          @ [CHR 0x0A] @ ''          ''
          @ [CHR 0x0A] @ ''          - Full document: '' @ [CHR 0x22]
              @ ''<p>The quick brown fox. The end.</p>'' @ [CHR 0x22]
          @ [CHR 0x0A] @ ''          ''
          @ [CHR 0x0A] @ ''          Help the user with their writing by providing specific, contextual answers.''
          @ [CHR 0x0A] @ ''          When referring to text, you can quote relevant parts to make your answers clearer.'',
          ''Shorter?'']
   \<and> length (requests (sendMessage ''Shorter?'' [] foxStream foxApp)) = 1
   \<and> \<not> hasSelection caretApp
   \<and> requests (sendMessage ''Shorter?'' [] foxStream foxApp)
       = requests (sendMessage ''Shorter?'' [] foxStream caretApp)
   \<and> chatMessages (sendMessage ''Shorter?'' [] foxStream foxApp)
       = [\<lparr>role = User, content = ''Shorter?''\<rparr>, \<lparr>role = Assistant, content = ''A fox runs.''\<rparr>]"
proof -
  have t: "trim ''Shorter?'' \<noteq> []" by (simp add: trim_def isWhiteSpace_def)
  have ed: "editor foxApp = Some foxEditor" "selectionRange (editorState foxApp) = None"
    "editor caretApp = Some (foxEditor\<lparr>selection := \<lparr>from_pos = 4, to_pos = 4\<rparr>\<rparr>)"
    "selectionRange (editorState caretApp) = None" "requests foxApp = []" "requests caretApp = []"
    "chatMessages foxApp = []"
    by (simp_all add: foxApp_def caretApp_def)
  have html: "getHTML foxEditor = ''<p>The quick brown fox. The end.</p>''"
    "getHTML (foxEditor\<lparr>selection := \<lparr>from_pos = 4, to_pos = 4\<rparr>\<rparr>)
       = ''<p>The quick brown fox. The end.</p>''"
    by (simp_all add: getHTML_def escapeHTML_def foxEditor_def)
  have fin: "ending foxStream = Exhausted"
    "concat (map chunkContent (chunks foxStream)) = ''A fox runs.''"
    by (simp_all add: foxStream_def textChunk_def chunkContent_def)
  have req: "requests (sendMessage ''Shorter?'' sel foxStream s) = requests (chatStart ''Shorter?'' sel s)"
    for sel s
    by (simp add: sendMessage_phases [OF t] split: StreamEnd.splits)
  have transcript: "chatMessages (sendMessage ''Shorter?'' [] foxStream foxApp)
       = [\<lparr>role = User, content = ''Shorter?''\<rparr>, \<lparr>role = Assistant, content = ''A fox runs.''\<rparr>]"
    by (simp add: sendMessage_phases [OF t] fin chatStart_fields ed)
  have sel: "textBetween (from_pos (selection foxEditor)) (to_pos (selection foxEditor)) (doc foxEditor)
       = ''The quick brown fox.''"
    by (simp add: foxEditor_def textBetween_def)
  have has: "hasSelection foxApp" "\<not> hasSelection caretApp"
    by (simp_all add: hasSelection_def ed foxEditor_def)
  show ?thesis
    unfolding req chatStart_fields transcript
    using has sel
    by (simp add: ed html getSelectedText_def getGroqChatCompletion_def chatSystemContent_def)
qed

text \<open>
  C9. The handlers of summarize, improve and complete (and the toolbar's summarize) are one
  state machine: for every state and every answer of the endpoint, any two of them end in
  states that are equal in everything but the trace of requests, document and replacements
  included; and their traces of requests are equal once the texts of the messages are
  blanked, so the requests differ in the wording of the system and user messages only.
\<close>

theorem C9_actions_differ_in_wording_only:
  "(triggerAction a chatStream s)\<lparr>requests := rs\<rparr>
     = (triggerAction b chatStream s)\<lparr>requests := rs\<rparr>
   \<and> map (\<lambda>r. r\<lparr>messages := map (\<lambda>m. m\<lparr>content := []\<rparr>) (messages r)\<rparr>)
         (requests (triggerAction a chatStream s))
     = map (\<lambda>r. r\<lparr>messages := map (\<lambda>m. m\<lparr>content := []\<rparr>) (messages r)\<rparr>)
         (requests (triggerAction b chatStream s))"
proof
  show "(triggerAction a chatStream s)\<lparr>requests := rs\<rparr>
          = (triggerAction b chatStream s)\<lparr>requests := rs\<rparr>"
    unfolding triggerAction_streamingOperation by (rule streamingOperation_same_transitions)
next
  let ?blank = "\<lambda>r. r\<lparr>messages := map (\<lambda>m. m\<lparr>content := []\<rparr>) (messages r)\<rparr>"
  have blank: "map ?blank (getGroqChatCompletion (actionMessages c t) issued)
                 = map ?blank (getGroqChatCompletion (actionMessages c' t') issued)"
    for c c' t t' issued
    by (simp add: getGroqChatCompletion_def actionMessages_roles)
  show "map ?blank (requests (triggerAction a chatStream s))
          = map ?blank (requests (triggerAction b chatStream s))"
  proof (cases "\<not> hasSelection s \<or> isStreaming (state s)")
    case True
    then show ?thesis
      by (simp add: triggerAction_streamingOperation streamingOperation_noop)
  next
    case False
    then obtain e where e: "editor s = Some e" "from_pos (selection e) \<noteq> to_pos (selection e)"
        "\<not> isStreaming (state s)"
      by (auto simp: hasSelection_def split: option.splits)
    show ?thesis
    proof (cases "textBetween (from_pos (selection e)) (to_pos (selection e)) (doc e) = []")
      case True
      then show ?thesis
        using e by (simp add: triggerAction_streamingOperation streamingOperation_no_text)
    next
      case False
      then show ?thesis
        using e blank
        by (simp add: triggerAction_streamingOperation streamingOperation_closed)
    qed
  qed
qed

text \<open>
  C10. When the answer to a chat send with a non-blank text fails, at whatever point, the
  transcript is the one before the send followed by the user message and by nothing else,
  and the loading flag is false.
\<close>

theorem C10_failed_chat_keeps_user_message:
  assumes "trim text \<noteq> []" and "ending chatStream = Fails t"
  shows "chatMessages (sendMessage text selectedText chatStream s)
           = chatMessages s @ [\<lparr>role = User, content = text\<rparr>]
         \<and> isChatLoading (sendMessage text selectedText chatStream s) = False"
  using assms by (simp add: sendMessage_phases chatStart_fields)

theorem C10_failed_chat_keeps_user_message_witness:
  "trim ''Shorter?'' \<noteq> []
   \<and> ending failingStream = Fails (Error ''network down'')
   \<and> chatMessages (sendMessage ''Shorter?'' [] failingStream foxApp)
       = [\<lparr>role = User, content = ''Shorter?''\<rparr>]
   \<and> isChatLoading (sendMessage ''Shorter?'' [] failingStream foxApp) = False"
proof -
  have h1: "trim ''Shorter?'' \<noteq> []" by (simp add: trim_def isWhiteSpace_def)
  have h2: "ending failingStream = Fails (Error ''network down'')" by (simp add: failingStream_def)
  have c: "chatMessages foxApp = []" by (simp add: foxApp_def)
  show ?thesis
    using C10_failed_chat_keeps_user_message [OF h1 h2, of "[]" foxApp] h1 h2 by (simp add: c)
qed

end
